theory Spec2Isabelle
  imports Main "HOL-Library.Sublist"
begin

section \<open>Configuration and strategy selection\<close>

text \<open>
  The fields of \<open>FullConfig\<close> that \<open>browserContextFactory.ts\<close> reads. The endpoints,
  the channel and the configured profile directory are optional strings; \<open>isolated\<close> is
  used only through its truth value.
\<close>

record browser_config =
  browserName :: string
  isolated :: bool
  userDataDirOpt :: "string option"
  channel :: "string option"
  cdpEndpoint :: "string option"
  remoteEndpoint :: "string option"

record full_config =
  browser :: browser_config
  saveTrace :: bool

text \<open>JavaScript's truth value of an optional string: undefined and the empty string are false.\<close>

definition truthy :: "string option \<Rightarrow> bool" where
  "truthy s = (case s of None \<Rightarrow> False | Some x \<Rightarrow> x \<noteq> [])"

datatype strategy =
  RemoteContextFactory | CdpContextFactory | IsolatedContextFactory | PersistentContextFactory

definition contextFactory :: "full_config \<Rightarrow> strategy" where
  "contextFactory config =
     (if truthy (remoteEndpoint (browser config)) then RemoteContextFactory
      else if truthy (cdpEndpoint (browser config)) then CdpContextFactory
      else if isolated (browser config) then IsolatedContextFactory
      else PersistentContextFactory)"

section \<open>Errors and messages\<close>

datatype error = Error (message: string)

definition notInstalledMsg :: string where
  "notInstalledMsg =
     ''Browser specified in your config is not installed. Either install it (likely) or change the config.''"

definition alreadyRunningMsg :: string where
  "alreadyRunningMsg =
     ''Browser is already running with the same profile. Please close the existing browser instance or wait for it to fully shut down.''"

definition failedAfter3Msg :: string where
  "failedAfter3Msg = ''Failed to create browser context after 3 attempts''"

definition executableMissingPat :: string where
  "executableMissingPat = ''Executable doesn't exist''"

text \<open>\<open>String.prototype.includes\<close>: the pattern occurs as a contiguous run of the text.\<close>

fun str_includes :: "string \<Rightarrow> string \<Rightarrow> bool" where
  "str_includes [] pat = (pat = [])"
| "str_includes (c # cs) pat = (prefix pat (c # cs) \<or> str_includes cs pat)"

section \<open>The profile directory\<close>

text \<open>
  What \<open>_createUserDataDir\<close> takes from outside this file: the environment variable
  \<open>PWMCP_PROFILES_DIR_FOR_TEST\<close>, Playwright's \<open>registryDirectory\<close>, \<open>createHash\<close> of
  \<open>utils/guid.js\<close> and Node's \<open>path.join\<close>.
\<close>

record platform =
  envProfilesDir :: "string option"
  registryDirectory :: string
  createHash :: "string \<Rightarrow> string"
  pathJoin :: "string \<Rightarrow> string \<Rightarrow> string"

definition browserToken :: "full_config \<Rightarrow> string" where
  "browserToken config =
     (case channel (browser config) of Some c \<Rightarrow> c | None \<Rightarrow> browserName (browser config))"

definition rootPathToken :: "platform \<Rightarrow> string option \<Rightarrow> string" where
  "rootPathToken pf rootPath =
     (case rootPath of
        None \<Rightarrow> []
      | Some r \<Rightarrow> if r \<noteq> [] then ''-'' @ createHash pf r else [])"

section \<open>The persistent-profile strategy\<close>

type_synonym handle = nat

text \<open>
  What the factory does to the outside, in order: directories made, calls of
  \<open>launchPersistentContext\<close> with the profile directory, timers armed (milliseconds), the
  title of the first page read, \<open>close()\<close> called on a handle; and the claims on profile
  directories taken and released in \<open>_userDataDirs\<close>.
\<close>

datatype event =
    Mkdir string
  | LaunchPersistentContext string
  | SetTimeout nat
  | PageTitle
  | ContextClose handle
  | LockDir string
  | ReleaseDir string

text \<open>
  The fields of \<open>PersistentContextFactory\<close>, then the world: how many times
  \<open>launchPersistentContext\<close> was called (the k-th call, when it succeeds, yields handle k),
  how many times \<open>_doCreateContext\<close> was started (the k-th start is promise k), and the log.
\<close>

record pstate =
  userDataDirs :: "string set"
  browserInstance :: "handle option"
  userDataDir :: "string option"
  createContextPromise :: "nat option"
  launchCount :: nat
  creationCount :: nat
  trace :: "event list"

text \<open>A factory as its constructor leaves it.\<close>

definition newFactory :: pstate where
  "newFactory =
     \<lparr>userDataDirs = {}, browserInstance = None, userDataDir = None,
      createContextPromise = None, launchCount = 0, creationCount = 0, trace = []\<rparr>"

datatype closeFn = SoftClose | HardClose

text \<open>What \<open>createContext\<close> returns: the context (which may be undefined) and the close function.\<close>

datatype psession = Session (browserContextOf: "handle option") (closeOf: closeFn)

datatype launch_outcome = Launched | LaunchFailed error

text \<open>
  What the outside answers during one \<open>_doCreateContext\<close>: whether \<open>findFreePort\<close>,
  \<open>mkdir\<close> or \<open>startTraceServer\<close> rejects, and the outcome of the launch of each
  iteration \<open>i\<close> of the loop.
\<close>

record creation_env =
  portFailure :: "error option"
  mkdirFailure :: "error option"
  traceFailure :: "error option"
  launch :: "nat \<Rightarrow> launch_outcome"

definition logEvents :: "event list \<Rightarrow> pstate \<Rightarrow> pstate" where
  "logEvents es st = st\<lparr>trace := trace st @ es\<rparr>"

definition injectCdpPort :: "full_config \<Rightarrow> error option \<Rightarrow> error option" where
  "injectCdpPort config findFreePortFails =
     (if browserName (browser config) = ''chromium'' then findFreePortFails else None)"

definition startTraceServer :: "full_config \<Rightarrow> error option \<Rightarrow> error option" where
  "startTraceServer config traceServerFails =
     (if \<not> saveTrace config then None else traceServerFails)"

text \<open>\<open>_createUserDataDir\<close>: derives the path, makes the directory, returns the path.\<close>

definition createUserDataDir ::
  "platform \<Rightarrow> full_config \<Rightarrow> string option \<Rightarrow> error option \<Rightarrow> pstate \<Rightarrow> (error + string) \<times> pstate" where
  "createUserDataDir pf config rootPath mkdirFails st =
     (let dir = (case envProfilesDir pf of Some d \<Rightarrow> d | None \<Rightarrow> registryDirectory pf);
          result = pathJoin pf dir (''mcp-'' @ browserToken config @ rootPathToken pf rootPath)
      in case mkdirFails of
           Some e \<Rightarrow> (Inl e, st)
         | None \<Rightarrow> (Inr result, logEvents [Mkdir result] st))"

text \<open>The two tests the loop makes on the message of a launch error.\<close>

definition missingExecutable :: "error \<Rightarrow> bool" where
  "missingExecutable e = str_includes (message e) executableMissingPat"

definition profileInUse :: "error \<Rightarrow> bool" where
  "profileInUse e =
     (str_includes (message e) ''ProcessSingleton'' \<or> str_includes (message e) ''Invalid URL'')"

text \<open>
  The loop of \<open>_doCreateContext\<close>, from iteration \<open>i\<close>. A launch that succeeds stores the
  handle and returns it with the hard close; \<open>_setupBrowserEventListeners\<close> registers the
  listener \<open>closeListener\<close> below on it.
\<close>

function launchLoop ::
  "string \<Rightarrow> (nat \<Rightarrow> launch_outcome) \<Rightarrow> nat \<Rightarrow> pstate \<Rightarrow> (error + psession) \<times> pstate" where
  "launchLoop dir outcome i st =
     (if i < 3 then
        (let h = launchCount st;
             st1 = logEvents [LaunchPersistentContext dir] (st\<lparr>launchCount := Suc (launchCount st)\<rparr>)
         in case outcome i of
              Launched \<Rightarrow> (Inr (Session (Some h) HardClose), st1\<lparr>browserInstance := Some h\<rparr>)
            | LaunchFailed e \<Rightarrow>
                if missingExecutable e
                then (Inl (Error notInstalledMsg), st1)
                else if profileInUse e
                then (if i < 2
                      then launchLoop dir outcome (i + 1) (logEvents [SetTimeout (2000 * (i + 1))] st1)
                      else (Inl (Error alreadyRunningMsg), st1))
                else (Inl e, st1))
      else (Inl (Error failedAfter3Msg), st))"
  by pat_completeness auto
termination
  by (relation "measure (\<lambda>(dir, outcome, i, st). 3 - i)") auto

declare launchLoop.simps [simp del]

definition doCreateContext ::
  "platform \<Rightarrow> full_config \<Rightarrow> string option \<Rightarrow> creation_env \<Rightarrow> pstate \<Rightarrow> (error + psession) \<times> pstate" where
  "doCreateContext pf config rootPath env st =
     (case injectCdpPort config (portFailure env) of
        Some e \<Rightarrow> (Inl e, st)
      | None \<Rightarrow>
         (case (case userDataDirOpt (browser config) of
                  Some d \<Rightarrow> (Inr d, st)
                | None \<Rightarrow> createUserDataDir pf config rootPath (mkdirFailure env) st) of
            (Inl e, st1) \<Rightarrow> (Inl e, st1)
          | (Inr dir, st1) \<Rightarrow>
             (case startTraceServer config (traceFailure env) of
                Some e \<Rightarrow> (Inl e, st1)
              | None \<Rightarrow>
                 launchLoop dir (launch env) 0
                   (logEvents [LockDir dir]
                      (st1\<lparr>userDataDir := Some dir, userDataDirs := insert dir (userDataDirs st1)\<rparr>)))))"

text \<open>The timers armed in a log, in order.\<close>

fun timers :: "event list \<Rightarrow> nat list" where
  "timers [] = []"
| "timers (SetTimeout ms # es) = ms # timers es"
| "timers (_ # es) = timers es"







text \<open>
  The liveness probe. The outside answers with the number of pages of the context and
  with what settles first, the title of the first page or the timer.
\<close>

datatype race_outcome = TitleResolved | TitleRejected error | TimerFired

record probe_env =
  pageCount :: nat
  race :: race_outcome

definition isBrowserContextValid :: "probe_env \<Rightarrow> pstate \<Rightarrow> bool \<times> pstate" where
  "isBrowserContextValid env st =
     (if pageCount env = 0 then (True, st)
      else (let st1 = logEvents [PageTitle, SetTimeout 1000] st
            in case race env of
                 TitleResolved \<Rightarrow> (True, st1)
               | TitleRejected e \<Rightarrow> (False, st1)
               | TimerFired \<Rightarrow> (False, st1)))"

text \<open>
  \<open>createContext\<close> of the persistent strategy, one call run from entry to return with
  nothing else running in between. A call that finds a creation pending returns that
  promise.
\<close>

datatype cc_result = ReturnsPending nat | Settles "error + psession"

definition createContext ::
  "platform \<Rightarrow> full_config \<Rightarrow> string option \<Rightarrow> probe_env \<Rightarrow> creation_env \<Rightarrow> pstate \<Rightarrow>
     cc_result \<times> pstate" where
  "createContext pf config rootPath penv cenv st =
     (case createContextPromise st of
        Some p \<Rightarrow> (ReturnsPending p, st)
      | None \<Rightarrow>
         (let (valid, st1) =
                (case browserInstance st of
                   None \<Rightarrow> (False, st)
                 | Some h \<Rightarrow> isBrowserContextValid penv st)
          in if valid
             then (Settles (Inr (Session (browserInstance st1) SoftClose)), st1)
             else (let st2 = st1\<lparr>createContextPromise := Some (creationCount st1),
                                   creationCount := Suc (creationCount st1)\<rparr>;
                       (r, st3) = doCreateContext pf config rootPath cenv st2
                   in (Settles r, st3\<lparr>createContextPromise := None\<rparr>))))"

section \<open>The persistent strategy: calls that overlap\<close>

text \<open>
  An async function runs until its next \<open>await\<close> and is resumed later; other calls
  run in between. Here each call of \<open>createContext\<close> and each run of
  \<open>_doCreateContext\<close> is a task that records where it is suspended, and a step runs one
  task from one \<open>await\<close> to the next.

  A call is suspended in the probe (with the verdict the probe will give), or awaits a
  creation (its own, whose \<open>finally\<close> clears \<open>_createContextPromise\<close>, or one it found
  pending), or has returned. A creation is suspended before the loop (in
  \<open>injectCdpPort\<close>, \<open>mkdir\<close> or \<open>startTraceServer\<close>, which touch no field of the
  factory), in a launch it has called (iteration and handle), in the timer after a failed
  launch, or has settled. Creation \<open>k\<close> is the promise \<open>k\<close>.
\<close>

datatype call_pc =
    Probing bool
  | AwaitsCreation nat bool
  | CallReturned "error + psession"

datatype creation_pc =
    InSetup
  | AwaitsLaunch string nat handle
  | AwaitsTimer string nat
  | CreationSettled "error + psession"

record call =
  callRoot :: "string option"
  callCreation :: creation_env
  callPc :: call_pc

record creation =
  creationRoot :: "string option"
  creationEnv :: creation_env
  creationPc :: creation_pc

record system =
  factory :: pstate
  calls :: "call list"
  creations :: "creation list"

definition newSystem :: system where
  "newSystem = \<lparr>factory = newFactory, calls = [], creations = []\<rparr>"

text \<open>\<open>this._createContextPromise = this._doCreateContext(clientInfo)\<close>.\<close>

definition startCreation :: "string option \<Rightarrow> creation_env \<Rightarrow> system \<Rightarrow> nat \<times> system" where
  "startCreation rp cenv sys =
     (let k = creationCount (factory sys)
      in (k, sys\<lparr>factory := (factory sys)\<lparr>createContextPromise := Some k, creationCount := Suc k\<rparr>,
                 creations := creations sys @
                   [\<lparr>creationRoot = rp, creationEnv = cenv, creationPc = InSetup\<rparr>]\<rparr>))"

text \<open>A call of \<open>createContext\<close>, from entry to its first \<open>await\<close>.\<close>

definition invoke :: "string option \<Rightarrow> probe_env \<Rightarrow> creation_env \<Rightarrow> system \<Rightarrow> system" where
  "invoke rp penv cenv sys =
     (case createContextPromise (factory sys) of
        Some p \<Rightarrow>
          sys\<lparr>calls := calls sys @
                 [\<lparr>callRoot = rp, callCreation = cenv, callPc = AwaitsCreation p False\<rparr>]\<rparr>
      | None \<Rightarrow>
         (case browserInstance (factory sys) of
            Some h \<Rightarrow>
              (let (valid, st1) = isBrowserContextValid penv (factory sys)
               in sys\<lparr>factory := st1,
                      calls := calls sys @
                        [\<lparr>callRoot = rp, callCreation = cenv, callPc = Probing valid\<rparr>]\<rparr>)
          | None \<Rightarrow>
              (let (k, sys1) = startCreation rp cenv sys
               in sys1\<lparr>calls := calls sys1 @
                        [\<lparr>callRoot = rp, callCreation = cenv, callPc = AwaitsCreation k True\<rparr>]\<rparr>)))"

text \<open>
  A call resumed: after the probe it returns the handle the factory holds now, with the
  soft close, or starts a creation; awaiting a creation, it returns once that has settled.
\<close>

definition resumeCall :: "nat \<Rightarrow> system \<Rightarrow> system" where
  "resumeCall i sys =
     (if i < length (calls sys) then
        (let c = calls sys ! i
         in case callPc c of
              Probing valid \<Rightarrow>
                if valid
                then sys\<lparr>calls := (calls sys)
                       [i := c\<lparr>callPc := CallReturned
                          (Inr (Session (browserInstance (factory sys)) SoftClose))\<rparr>]\<rparr>
                else (let (k, sys1) = startCreation (callRoot c) (callCreation c) sys
                      in sys1\<lparr>calls := (calls sys1)[i := c\<lparr>callPc := AwaitsCreation k True\<rparr>]\<rparr>)
            | AwaitsCreation k own \<Rightarrow>
                if k < length (creations sys) then
                  (case creationPc (creations sys ! k) of
                     CreationSettled r \<Rightarrow>
                       (let sys1 = (if own
                                    then sys\<lparr>factory := (factory sys)\<lparr>createContextPromise := None\<rparr>\<rparr>
                                    else sys)
                        in sys1\<lparr>calls := (calls sys1)[i := c\<lparr>callPc := CallReturned r\<rparr>]\<rparr>)
                   | _ \<Rightarrow> sys)
                else sys
            | CallReturned r \<Rightarrow> sys)
      else sys)"

text \<open>The call of \<open>launchPersistentContext\<close> of iteration \<open>i\<close>.\<close>

definition callLaunch :: "string \<Rightarrow> nat \<Rightarrow> pstate \<Rightarrow> creation_pc \<times> pstate" where
  "callLaunch dir i st =
     (AwaitsLaunch dir i (launchCount st),
      logEvents [LaunchPersistentContext dir] (st\<lparr>launchCount := Suc (launchCount st)\<rparr>))"

text \<open>A creation resumed: the code of \<open>_doCreateContext\<close> from one \<open>await\<close> to the next.\<close>

definition creationStep ::
  "platform \<Rightarrow> full_config \<Rightarrow> creation \<Rightarrow> pstate \<Rightarrow> creation_pc \<times> pstate" where
  "creationStep pf config c st =
     (case creationPc c of
        InSetup \<Rightarrow>
          (case injectCdpPort config (portFailure (creationEnv c)) of
             Some e \<Rightarrow> (CreationSettled (Inl e), st)
           | None \<Rightarrow>
              (case (case userDataDirOpt (browser config) of
                       Some d \<Rightarrow> (Inr d, st)
                     | None \<Rightarrow> createUserDataDir pf config (creationRoot c)
                                 (mkdirFailure (creationEnv c)) st) of
                 (Inl e, st1) \<Rightarrow> (CreationSettled (Inl e), st1)
               | (Inr dir, st1) \<Rightarrow>
                  (case startTraceServer config (traceFailure (creationEnv c)) of
                     Some e \<Rightarrow> (CreationSettled (Inl e), st1)
                   | None \<Rightarrow>
                       callLaunch dir 0
                         (logEvents [LockDir dir]
                            (st1\<lparr>userDataDir := Some dir,
                                 userDataDirs := insert dir (userDataDirs st1)\<rparr>)))))
      | AwaitsLaunch dir i h \<Rightarrow>
          (case launch (creationEnv c) i of
             Launched \<Rightarrow>
               (CreationSettled (Inr (Session (Some h) HardClose)), st\<lparr>browserInstance := Some h\<rparr>)
           | LaunchFailed e \<Rightarrow>
               if missingExecutable e then (CreationSettled (Inl (Error notInstalledMsg)), st)
               else if profileInUse e
               then (if i < 2 then (AwaitsTimer dir i, logEvents [SetTimeout (2000 * (i + 1))] st)
                     else (CreationSettled (Inl (Error alreadyRunningMsg)), st))
               else (CreationSettled (Inl e), st))
      | AwaitsTimer dir i \<Rightarrow>
          if i + 1 < 3 then callLaunch dir (i + 1) st
          else (CreationSettled (Inl (Error failedAfter3Msg)), st)
      | CreationSettled r \<Rightarrow> (CreationSettled r, st))"

definition resumeCreation :: "platform \<Rightarrow> full_config \<Rightarrow> nat \<Rightarrow> system \<Rightarrow> system" where
  "resumeCreation pf config k sys =
     (if k < length (creations sys) then
        (let c = creations sys ! k;
             (pc, st) = creationStep pf config c (factory sys)
         in sys\<lparr>factory := st, creations := (creations sys)[k := c\<lparr>creationPc := pc\<rparr>]\<rparr>)
      else sys)"

text \<open>A creation resumed \<open>n\<close> times with nothing else running.\<close>

fun creationSteps ::
  "nat \<Rightarrow> platform \<Rightarrow> full_config \<Rightarrow> creation \<Rightarrow> pstate \<Rightarrow> creation_pc \<times> pstate" where
  "creationSteps 0 pf config c st = (creationPc c, st)"
| "creationSteps (Suc n) pf config c st =
     (let (pc, st1) = creationStep pf config c st
      in creationSteps n pf config (c\<lparr>creationPc := pc\<rparr>) st1)"

text \<open>Schedules: calls arriving and tasks being resumed, in order.\<close>

datatype action =
    Invoke "string option" probe_env creation_env
  | ResumeCall nat
  | ResumeCreation nat

fun perform :: "platform \<Rightarrow> full_config \<Rightarrow> action \<Rightarrow> system \<Rightarrow> system" where
  "perform pf config (Invoke rp penv cenv) sys = invoke rp penv cenv sys"
| "perform pf config (ResumeCall i) sys = resumeCall i sys"
| "perform pf config (ResumeCreation k) sys = resumeCreation pf config k sys"

fun run :: "platform \<Rightarrow> full_config \<Rightarrow> action list \<Rightarrow> system \<Rightarrow> system" where
  "run pf config [] sys = sys"
| "run pf config (a # as) sys = run pf config as (perform pf config a sys)"

section \<open>The shared registry of the isolated, CDP and remote strategies\<close>

type_synonym browser_id = nat
type_synonym context_id = nat

text \<open>
  The field \<open>_browserPromise\<close> (a promise fulfilled with a browser, or undefined), then
  the world: the contexts each browser lists, which browsers are connected, how many
  launches and connects were made (the k-th, when it succeeds, yields browser k), how
  many contexts were named, and the calls of \<open>browser.close()\<close> in order.
\<close>

record bstate =
  browserPromise :: "browser_id option"
  contextsOf :: "browser_id \<Rightarrow> context_id list"
  connected :: "browser_id \<Rightarrow> bool"
  obtainCount :: nat
  contextCount :: nat
  closeLog :: "browser_id list"

definition newRegistry :: bstate where
  "newRegistry =
     \<lparr>browserPromise = None, contextsOf = (\<lambda>b. []), connected = (\<lambda>b. False),
      obtainCount = 0, contextCount = 0, closeLog = []\<rparr>"

text \<open>
  What the outside answers during one \<open>createContext\<close> of the registry: whether
  \<open>findFreePort\<close> or \<open>startTraceServer\<close> rejects, whether \<open>new URL\<close> throws on
  the remote endpoint, the outcome of the launch or connect, how many contexts the browser
  lists when it is obtained, and whether \<open>newContext\<close> rejects.
\<close>

record obtain_env =
  freePortFailure :: "error option"
  traceServerFailure :: "error option"
  urlFailure :: "error option"
  obtained :: launch_outcome
  existingContexts :: nat
  newContextFailure :: "error option"

text \<open>A launch or connect that succeeds: browser \<open>obtainCount\<close>, with the contexts it lists.\<close>

definition openBrowser :: "obtain_env \<Rightarrow> bstate \<Rightarrow> browser_id \<times> bstate" where
  "openBrowser env st =
     (let b = obtainCount st;
          cs = [contextCount st..<contextCount st + existingContexts env]
      in (b, st\<lparr>contextsOf := (contextsOf st)(b := cs), connected := (connected st)(b := True),
                 obtainCount := Suc (obtainCount st),
                 contextCount := contextCount st + existingContexts env\<rparr>))"

text \<open>
  \<open>_doObtainBrowser\<close> of each strategy of the registry; only the isolated one rewrites
  the error of a missing executable. For the remote strategy \<open>new URL\<close> may throw on
  the endpoint, before any connect is made. The persistent strategy is no registry: a kind
  that does not override the method gets the one of the base class, which throws.

  The operations of the registry are given as one call run from entry to return, with
  nothing else running in between.
\<close>

definition doObtainBrowser ::
  "strategy \<Rightarrow> full_config \<Rightarrow> obtain_env \<Rightarrow> bstate \<Rightarrow> (error + browser_id) \<times> bstate" where
  "doObtainBrowser kind config env st =
     (case kind of
        IsolatedContextFactory \<Rightarrow>
          (case injectCdpPort config (freePortFailure env) of
             Some e \<Rightarrow> (Inl e, st)
           | None \<Rightarrow>
              (case startTraceServer config (traceServerFailure env) of
                 Some e \<Rightarrow> (Inl e, st)
               | None \<Rightarrow>
                  (case obtained env of
                     Launched \<Rightarrow> (let (b, st1) = openBrowser env st in (Inr b, st1))
                   | LaunchFailed e \<Rightarrow>
                       if missingExecutable e
                       then (Inl (Error notInstalledMsg), st\<lparr>obtainCount := Suc (obtainCount st)\<rparr>)
                       else (Inl e, st\<lparr>obtainCount := Suc (obtainCount st)\<rparr>))))
      | CdpContextFactory \<Rightarrow>
          (case obtained env of
             Launched \<Rightarrow> (let (b, st1) = openBrowser env st in (Inr b, st1))
           | LaunchFailed e \<Rightarrow> (Inl e, st\<lparr>obtainCount := Suc (obtainCount st)\<rparr>))
      | RemoteContextFactory \<Rightarrow>
          (case urlFailure env of
             Some e \<Rightarrow> (Inl e, st)
           | None \<Rightarrow>
              (case obtained env of
                 Launched \<Rightarrow> (let (b, st1) = openBrowser env st in (Inr b, st1))
               | LaunchFailed e \<Rightarrow> (Inl e, st\<lparr>obtainCount := Suc (obtainCount st)\<rparr>)))
      | PersistentContextFactory \<Rightarrow> (Inl (Error ''Not implemented''), st))"

text \<open>The listener registered for the disconnected event of an obtained browser.\<close>

definition disconnectedListener :: "bstate \<Rightarrow> bstate" where
  "disconnectedListener st = st\<lparr>browserPromise := None\<rparr>"

definition obtainBrowser ::
  "strategy \<Rightarrow> full_config \<Rightarrow> obtain_env \<Rightarrow> bstate \<Rightarrow> (error + browser_id) \<times> bstate" where
  "obtainBrowser kind config env st =
     (case browserPromise st of
        Some b \<Rightarrow> (Inr b, st)
      | None \<Rightarrow>
         (case doObtainBrowser kind config env st of
            (Inr b, st1) \<Rightarrow> (Inr b, st1\<lparr>browserPromise := Some b\<rparr>)
          | (Inl e, st1) \<Rightarrow> (Inl e, st1\<lparr>browserPromise := None\<rparr>)))"

definition newContext :: "browser_id \<Rightarrow> obtain_env \<Rightarrow> bstate \<Rightarrow> (error + context_id option) \<times> bstate" where
  "newContext b env st =
     (case newContextFailure env of
        Some e \<Rightarrow> (Inl e, st)
      | None \<Rightarrow>
         (let c = contextCount st
          in (Inr (Some c),
              st\<lparr>contextsOf := (contextsOf st)(b := contextsOf st b @ [c]),
                 contextCount := Suc (contextCount st)\<rparr>)))"

text \<open>\<open>_doCreateContext\<close> of each strategy; \<open>contexts()[0]\<close> of an empty list is undefined.\<close>

definition doCreateContextOn ::
  "strategy \<Rightarrow> full_config \<Rightarrow> browser_id \<Rightarrow> obtain_env \<Rightarrow> bstate \<Rightarrow>
     (error + context_id option) \<times> bstate" where
  "doCreateContextOn kind config b env st =
     (case kind of
        IsolatedContextFactory \<Rightarrow> newContext b env st
      | CdpContextFactory \<Rightarrow>
          if isolated (browser config) then newContext b env st
          else (Inr (case contextsOf st b of [] \<Rightarrow> None | c # cs \<Rightarrow> Some c), st)
      | RemoteContextFactory \<Rightarrow> newContext b env st
      | PersistentContextFactory \<Rightarrow> (Inl (Error ''Not implemented''), st))"

text \<open>
  What \<open>createContext\<close> of the registry returns: the context (which may be undefined)
  and the browser; the close function is \<open>_closeBrowserContext\<close> on the two.
\<close>

datatype bsession = BSession (contextOf: "context_id option") (browserOf: browser_id)

definition registryCreateContext ::
  "strategy \<Rightarrow> full_config \<Rightarrow> obtain_env \<Rightarrow> bstate \<Rightarrow> (error + bsession) \<times> bstate" where
  "registryCreateContext kind config env st =
     (case obtainBrowser kind config env st of
        (Inl e, st1) \<Rightarrow> (Inl e, st1)
      | (Inr b, st1) \<Rightarrow>
         (case doCreateContextOn kind config b env st1 of
            (Inl e, st2) \<Rightarrow> (Inl e, st2)
          | (Inr c, st2) \<Rightarrow> (Inr (BSession c b), st2)))"

text \<open>
  \<open>browser.close()\<close>: the call is logged; a connected browser disconnects, lists no
  context any more, and its disconnected event fires.
\<close>

definition browserClose :: "browser_id \<Rightarrow> bstate \<Rightarrow> bstate" where
  "browserClose b st =
     (let st1 = st\<lparr>closeLog := closeLog st @ [b]\<rparr>
      in if connected st1 b
         then disconnectedListener
                (st1\<lparr>connected := (connected st1)(b := False),
                     contextsOf := (contextsOf st1)(b := [])\<rparr>)
         else st1)"

text \<open>
  \<open>_closeBrowserContext\<close>. A context whose \<open>close()\<close> rejects stays listed (the
  error is logged); calling \<open>close\<close> on an undefined context throws.
\<close>

definition closeBrowserContext :: "bsession \<Rightarrow> bool \<Rightarrow> bstate \<Rightarrow> (error + unit) \<times> bstate" where
  "closeBrowserContext s contextCloseFails st =
     (let b = browserOf s;
          st1 = (if length (contextsOf st b) = 1 then st\<lparr>browserPromise := None\<rparr> else st)
      in case contextOf s of
           None \<Rightarrow> (Inl (Error ''Cannot read properties of undefined (reading 'close')''), st1)
         | Some c \<Rightarrow>
            (let st2 = (if contextCloseFails then st1
                        else st1\<lparr>contextsOf := (contextsOf st1)(b := removeAll c (contextsOf st1 b))\<rparr>)
             in if length (contextsOf st2 b) = 0
                then (Inr (), browserClose b st2)
                else (Inr (), st2)))"



section \<open>Observations and conditions used in the statements\<close>

text \<open>The profile directories released in a log, in order.\<close>

fun releases :: "event list \<Rightarrow> string list" where
  "releases [] = []"
| "releases (ReleaseDir d # es) = d # releases es"
| "releases (_ # es) = releases es"

text \<open>A creation whose every launch has the same outcome.\<close>

definition everyLaunch :: "launch_outcome \<Rightarrow> nat \<Rightarrow> launch_outcome" where
  "everyLaunch r i = r"

text \<open>Nothing rejects before the loop of \<open>_doCreateContext\<close>.\<close>

definition setupSucceeds :: "full_config \<Rightarrow> creation_env \<Rightarrow> bool" where
  "setupSucceeds config cenv =
     (injectCdpPort config (portFailure cenv) = None \<and>
      (userDataDirOpt (browser config) = None \<longrightarrow> mkdirFailure cenv = None) \<and>
      startTraceServer config (traceFailure cenv) = None)"

text \<open>The context has no page, or the title of its first page arrives before the timer.\<close>

definition probeSucceeds :: "probe_env \<Rightarrow> bool" where
  "probeSucceeds penv = (pageCount penv = 0 \<or> race penv = TitleResolved)"


abbreviation isolatedConfig :: full_config where
  "isolatedConfig \<equiv> \<lparr>browser = \<lparr>browserName = ''chromium'', isolated = True, userDataDirOpt = None,
      channel = None, cdpEndpoint = None, remoteEndpoint = None\<rparr>, saveTrace = False\<rparr>"

abbreviation persistentConfig :: full_config where
  "persistentConfig \<equiv> \<lparr>browser = \<lparr>browserName = ''chromium'', isolated = False,
      userDataDirOpt = Some ''/profile'', channel = None, cdpEndpoint = None,
      remoteEndpoint = None\<rparr>, saveTrace = False\<rparr>"


abbreviation succeeds :: "nat \<Rightarrow> obtain_env" where
  "succeeds n \<equiv> \<lparr>freePortFailure = None, traceServerFailure = None, urlFailure = None,
      obtained = Launched, existingContexts = n, newContextFailure = None\<rparr>"

abbreviation launches :: creation_env where
  "launches \<equiv> \<lparr>portFailure = None, mkdirFailure = None, traceFailure = None,
      launch = everyLaunch Launched\<rparr>"

abbreviation somePlatform :: platform where
  "somePlatform \<equiv> \<lparr>envProfilesDir = None, registryDirectory = ''/cache'', createHash = id,
      pathJoin = append\<rparr>"

abbreviation titleArrives :: probe_env where
  "titleArrives \<equiv> \<lparr>pageCount = 1, race = TitleResolved\<rparr>"

abbreviation titleTimesOut :: probe_env where
  "titleTimesOut \<equiv> \<lparr>pageCount = 1, race = TimerFired\<rparr>"

abbreviation launchedFactory :: pstate where
  "launchedFactory \<equiv>
     \<lparr>userDataDirs = {''/profile''}, browserInstance = Some 0, userDataDir = Some ''/profile'',
      createContextPromise = None, launchCount = 1, creationCount = 1,
      trace = [LockDir ''/profile'', LaunchPersistentContext ''/profile'']\<rparr>"



text \<open>
  A first call launches and returns; then two calls arrive while the handle is held and the
  title of its page does not arrive in time; both are resumed after their probes, and the
  two creations they start reach their first launch.
\<close>

abbreviation firstCall :: "action list" where
  "firstCall \<equiv>
     [Invoke None titleArrives launches, ResumeCreation 0, ResumeCreation 0, ResumeCall 0]"

abbreviation twoCallsOverlap :: "action list" where
  "twoCallsOverlap \<equiv>
     [Invoke None titleTimesOut launches, Invoke None titleTimesOut launches,
      ResumeCall 1, ResumeCall 2, ResumeCreation 1, ResumeCreation 2]"

section \<open>Strategy selection: the precedence\<close>

lemma str_includes_sublist: "str_includes s pat \<longleftrightarrow> sublist pat s"
  by (induction s) (simp_all add: sublist_Cons_right)

text \<open>
  C5. The selector is a function of the configuration alone and picks one strategy in a
  fixed order: Remote when a remote endpoint is configured; otherwise Debug-Attach when a
  CDP endpoint is configured; otherwise Isolated when the isolation flag is set; otherwise
  Persistent-Profile. An endpoint is configured when the string is present and not empty.
\<close>

theorem contextFactory_precedence:
  "(truthy (remoteEndpoint (browser config)) \<longrightarrow> contextFactory config = RemoteContextFactory) \<and>
   (\<not> truthy (remoteEndpoint (browser config)) \<and> truthy (cdpEndpoint (browser config)) \<longrightarrow>
      contextFactory config = CdpContextFactory) \<and>
   (\<not> truthy (remoteEndpoint (browser config)) \<and> \<not> truthy (cdpEndpoint (browser config)) \<and>
    isolated (browser config) \<longrightarrow> contextFactory config = IsolatedContextFactory) \<and>
   (\<not> truthy (remoteEndpoint (browser config)) \<and> \<not> truthy (cdpEndpoint (browser config)) \<and>
    \<not> isolated (browser config) \<longrightarrow> contextFactory config = PersistentContextFactory)"
  by (simp add: contextFactory_def)

theorem contextFactory_precedence_witness:
  "contextFactory \<lparr>browser = \<lparr>browserName = ''chromium'', isolated = True, userDataDirOpt = None,
       channel = None, cdpEndpoint = Some ''http://localhost:9222'',
       remoteEndpoint = Some ''ws://host''\<rparr>, saveTrace = False\<rparr> = RemoteContextFactory \<and>
   contextFactory \<lparr>browser = \<lparr>browserName = ''chromium'', isolated = True, userDataDirOpt = None,
       channel = None, cdpEndpoint = Some ''http://localhost:9222'',
       remoteEndpoint = None\<rparr>, saveTrace = False\<rparr> = CdpContextFactory \<and>
   contextFactory \<lparr>browser = \<lparr>browserName = ''chromium'', isolated = True, userDataDirOpt = None,
       channel = None, cdpEndpoint = None, remoteEndpoint = Some []\<rparr>,
       saveTrace = False\<rparr> = IsolatedContextFactory \<and>
   contextFactory \<lparr>browser = \<lparr>browserName = ''chromium'', isolated = False, userDataDirOpt = None,
       channel = None, cdpEndpoint = None, remoteEndpoint = None\<rparr>,
       saveTrace = False\<rparr> = PersistentContextFactory"
  using
    contextFactory_precedence[of "\<lparr>browser = \<lparr>browserName = ''chromium'', isolated = True,
       userDataDirOpt = None, channel = None, cdpEndpoint = Some ''http://localhost:9222'',
       remoteEndpoint = Some ''ws://host''\<rparr>, saveTrace = False\<rparr>"]
    contextFactory_precedence[of "\<lparr>browser = \<lparr>browserName = ''chromium'', isolated = True,
       userDataDirOpt = None, channel = None, cdpEndpoint = Some ''http://localhost:9222'',
       remoteEndpoint = None\<rparr>, saveTrace = False\<rparr>"]
    contextFactory_precedence[of "\<lparr>browser = \<lparr>browserName = ''chromium'', isolated = True,
       userDataDirOpt = None, channel = None, cdpEndpoint = None, remoteEndpoint = Some []\<rparr>,
       saveTrace = False\<rparr>"]
    contextFactory_precedence[of "\<lparr>browser = \<lparr>browserName = ''chromium'', isolated = False,
       userDataDirOpt = None, channel = None, cdpEndpoint = None, remoteEndpoint = None\<rparr>,
       saveTrace = False\<rparr>"]
  by (simp add: truthy_def)

section \<open>The launch loop\<close>

lemma timers_append: "timers (xs @ ys) = timers xs @ timers ys"
  by (induction xs rule: timers.induct) simp_all

lemma profileInUse_not_rewritten: "profileInUse e \<Longrightarrow> Error alreadyRunningMsg \<noteq> e"
proof
  assume "profileInUse e" and "Error alreadyRunningMsg = e"
  then have "profileInUse (Error alreadyRunningMsg)" by simp
  then show False by (simp add: profileInUse_def alreadyRunningMsg_def)
qed

lemma launchLoop_from:
  "launchLoop dir outcome i st = (r, st') \<Longrightarrow> i < 3 \<Longrightarrow>
     (\<exists>n. launchCount st' = launchCount st + n \<and> 1 \<le> n \<and> i + n \<le> 3 \<and>
          timers (trace st') = timers (trace st) @ map (\<lambda>k. 2000 * k) [i + 1..<i + n] \<and>
          (\<forall>k. i \<le> k \<and> k < i + n - 1 \<longrightarrow>
               (\<exists>e. outcome k = LaunchFailed e \<and> \<not> missingExecutable e \<and> profileInUse e)) \<and>
          (case outcome (i + n - 1) of
             Launched \<Rightarrow> r = Inr (Session (Some (launchCount st + n - 1)) HardClose) \<and> browserInstance st' = Some (launchCount st + n - 1)
           | LaunchFailed e \<Rightarrow>
               browserInstance st' = browserInstance st \<and>
               (if missingExecutable e then r = Inl (Error notInstalledMsg)
                else if profileInUse e then i + n = 3 \<and> r = Inl (Error alreadyRunningMsg)
                else r = Inl e)))"
proof (induction dir outcome i st arbitrary: r st' rule: launchLoop.induct)
  case (1 dir outcome i st)
  let ?st1 = "logEvents [LaunchPersistentContext dir] (st\<lparr>launchCount := Suc (launchCount st)\<rparr>)"
  show ?case
  proof (cases "outcome i")
    case Launched
    with "1.prems" show ?thesis
      by (subst (asm) launchLoop.simps) (auto simp: Let_def logEvents_def timers_append intro!: exI[of _ 1])
  next
    case (LaunchFailed e)
    show ?thesis
    proof (cases "\<not> missingExecutable e \<and> profileInUse e \<and> i < 2")
      case False
      with LaunchFailed "1.prems" show ?thesis
        by (subst (asm) launchLoop.simps)
           (auto simp: Let_def logEvents_def timers_append intro!: exI[of _ 1] split: if_splits)
    next
      case True
      with LaunchFailed "1.prems" have run:
        "launchLoop dir outcome (i + 1) (logEvents [SetTimeout (2000 * (i + 1))] ?st1) = (r, st')"
        by (subst (asm) launchLoop.simps) (simp add: Let_def)
      from True have lt: "i + 1 < 3" by simp
      define st2 where "st2 = logEvents [SetTimeout (2000 * (i + 1))] ?st1"
      have st2: "launchCount st2 = launchCount st + 1"
        "timers (trace st2) = timers (trace st) @ [2000 * (i + 1)]"
        "browserInstance st2 = browserInstance st"
        by (simp_all add: st2_def logEvents_def timers_append)
      from "1.IH"[OF _ refl refl LaunchFailed _ _ _ run lt] True "1.prems"(2)
      obtain n where n0: "launchCount st' = launchCount st2 + n" "1 \<le> n" "i + 1 + n \<le> 3"
        "timers (trace st') = timers (trace st2) @ map (\<lambda>k. 2000 * k) [i + 1 + 1..<i + 1 + n]"
        "\<forall>k. i + 1 \<le> k \<and> k < i + 1 + n - 1 \<longrightarrow>
               (\<exists>e. outcome k = LaunchFailed e \<and> \<not> missingExecutable e \<and> profileInUse e)"
        "(case outcome (i + 1 + n - 1) of
             Launched \<Rightarrow> r = Inr (Session (Some (launchCount st2 + n - 1)) HardClose) \<and> browserInstance st' = Some (launchCount st2 + n - 1)
           | LaunchFailed e \<Rightarrow>
               browserInstance st' = browserInstance st2 \<and>
               (if missingExecutable e then r = Inl (Error notInstalledMsg)
                else if profileInUse e then i + 1 + n = 3 \<and> r = Inl (Error alreadyRunningMsg)
                else r = Inl e))"
        unfolding st2_def by blast
      note n = n0[unfolded st2]
      have upt: "[i + 1..<i + (n + 1)] = (i + 1) # [i + 1 + 1..<i + 1 + n]"
        using n(2) by (simp add: upt_conv_Cons)
      have prev: "\<forall>k. i \<le> k \<and> k < i + (n + 1) - 1 \<longrightarrow>
               (\<exists>e. outcome k = LaunchFailed e \<and> \<not> missingExecutable e \<and> profileInUse e)"
      proof (intro allI impI)
        fix k assume k: "i \<le> k \<and> k < i + (n + 1) - 1"
        show "\<exists>e. outcome k = LaunchFailed e \<and> \<not> missingExecutable e \<and> profileInUse e"
        proof (cases "k = i")
          case True
          with LaunchFailed \<open>\<not> missingExecutable e \<and> profileInUse e \<and> i < 2\<close> show ?thesis by simp
        next
          case False
          with k n(5) show ?thesis by simp
        qed
      qed
      have idx: "i + (n + 1) - 1 = i + 1 + n - 1" "launchCount st + (n + 1) - 1 = launchCount st + 1 + n - 1"
        "i + (n + 1) = i + 1 + n"
        by simp_all
      show ?thesis
        apply (rule exI[of _ "n + 1"])
        apply (intro conjI)
        using n(1) apply simp
        using n(2) apply simp
        using n(3) apply simp
        using n(4) upt apply simp
        using prev apply blast
        unfolding idx using n(6) by simp
    qed
  qed
qed

text \<open>
  C2. The launch loop of the persistent strategy calls \<open>launchPersistentContext\<close> at
  least once and at most three times. Every attempt but the last one made failed with a
  message that names \<open>ProcessSingleton\<close> or \<open>Invalid URL\<close> (and not a missing
  executable), and a timer of 2000 ms times the attempt number was armed before the next
  attempt. The last attempt decides the result: a launch that succeeds returns the handle;
  a missing executable is rewritten at once into the "not installed" error, at whichever
  attempt it occurs; a profile still in use is the third such failure in a row and is
  rewritten into the "already running" error, which is not the underlying error; any
  other error is returned as it is.
\<close>

theorem launchLoop_retry_policy:
  assumes "launchLoop dir outcome 0 st = (r, st')"
  shows "\<exists>n. launchCount st' = launchCount st + n \<and> 1 \<le> n \<and> n \<le> 3 \<and>
           timers (trace st') = timers (trace st) @ map (\<lambda>k. 2000 * k) [1..<n] \<and>
           (\<forall>k<n - 1. \<exists>e. outcome k = LaunchFailed e \<and> \<not> missingExecutable e \<and> profileInUse e) \<and>
           (case outcome (n - 1) of
              Launched \<Rightarrow> r = Inr (Session (Some (launchCount st + n - 1)) HardClose)
            | LaunchFailed e \<Rightarrow>
                if missingExecutable e then r = Inl (Error notInstalledMsg)
                else if profileInUse e
                then n = 3 \<and> r = Inl (Error alreadyRunningMsg) \<and> r \<noteq> Inl e
                else r = Inl e)"
proof -
  from launchLoop_from[OF assms zero_less_numeral] obtain n where
    raw: "launchCount st' = launchCount st + n \<and> 1 \<le> n \<and> 0 + n \<le> 3 \<and>
          timers (trace st') = timers (trace st) @ map (\<lambda>k. 2000 * k) [0 + 1..<0 + n] \<and>
          (\<forall>k. 0 \<le> k \<and> k < 0 + n - 1 \<longrightarrow>
               (\<exists>e. outcome k = LaunchFailed e \<and> \<not> missingExecutable e \<and> profileInUse e)) \<and>
          (case outcome (0 + n - 1) of
             Launched \<Rightarrow> r = Inr (Session (Some (launchCount st + n - 1)) HardClose) \<and>
                          browserInstance st' = Some (launchCount st + n - 1)
           | LaunchFailed e \<Rightarrow>
               browserInstance st' = browserInstance st \<and>
               (if missingExecutable e then r = Inl (Error notInstalledMsg)
                else if profileInUse e then 0 + n = 3 \<and> r = Inl (Error alreadyRunningMsg)
                else r = Inl e))"
    by blast
  have n: "launchCount st' = launchCount st + n" "1 \<le> n" "n \<le> 3"
       "timers (trace st') = timers (trace st) @ map (\<lambda>k. 2000 * k) [1..<n]"
       "\<forall>k<n - 1. \<exists>e. outcome k = LaunchFailed e \<and> \<not> missingExecutable e \<and> profileInUse e"
    using raw by simp_all
  have n6: "(case outcome (n - 1) of
           Launched \<Rightarrow> r = Inr (Session (Some (launchCount st + n - 1)) HardClose) \<and>
                        browserInstance st' = Some (launchCount st + n - 1)
         | LaunchFailed e \<Rightarrow>
             browserInstance st' = browserInstance st \<and>
             (if missingExecutable e then r = Inl (Error notInstalledMsg)
              else if profileInUse e then n = 3 \<and> r = Inl (Error alreadyRunningMsg)
              else r = Inl e))"
    using raw by (auto split: launch_outcome.splits)
  have last: "case outcome (n - 1) of
              Launched \<Rightarrow> r = Inr (Session (Some (launchCount st + n - 1)) HardClose)
            | LaunchFailed e \<Rightarrow>
                if missingExecutable e then r = Inl (Error notInstalledMsg)
                else if profileInUse e
                then n = 3 \<and> r = Inl (Error alreadyRunningMsg) \<and> r \<noteq> Inl e
                else r = Inl e"
    using n6 by (auto split: launch_outcome.splits dest: profileInUse_not_rewritten)
  show ?thesis
    using n last by blast
qed

theorem launchLoop_retry_policy_witness:
  "launchLoop ''/p'' (\<lambda>i. LaunchFailed (Error ''ProcessSingleton'')) 0 newFactory =
     (Inl (Error alreadyRunningMsg),
      newFactory\<lparr>launchCount := 3,
        trace := [LaunchPersistentContext ''/p'', SetTimeout 2000, LaunchPersistentContext ''/p'',
                  SetTimeout 4000, LaunchPersistentContext ''/p'']\<rparr>) \<and>
   (\<exists>n. 3 = 0 + n \<and> 1 \<le> n \<and> n \<le> 3 \<and>
        [2000, 4000] = map (\<lambda>k. 2000 * k) [1..<n] \<and>
        (\<forall>k<n - 1. \<exists>e. LaunchFailed (Error ''ProcessSingleton'') = LaunchFailed e \<and>
             \<not> missingExecutable e \<and> profileInUse e) \<and>
        n = 3)"
proof -
  have run: "launchLoop ''/p'' (\<lambda>i. LaunchFailed (Error ''ProcessSingleton'')) 0 newFactory =
     (Inl (Error alreadyRunningMsg),
      newFactory\<lparr>launchCount := 3,
        trace := [LaunchPersistentContext ''/p'', SetTimeout 2000, LaunchPersistentContext ''/p'',
                  SetTimeout 4000, LaunchPersistentContext ''/p'']\<rparr>)"
    by (simp add: launchLoop.simps missingExecutable_def profileInUse_def executableMissingPat_def
          logEvents_def newFactory_def)
  have inUse: "profileInUse (Error ''ProcessSingleton'')"
    by (simp add: profileInUse_def)
  have notMissing: "\<not> missingExecutable (Error ''ProcessSingleton'')"
    by (simp add: missingExecutable_def executableMissingPat_def)
  from launchLoop_retry_policy[OF run] inUse notMissing
  have "\<exists>n. 3 = 0 + n \<and> 1 \<le> n \<and> n \<le> 3 \<and>
        [2000, 4000] = map (\<lambda>k. 2000 * k) [1..<n] \<and>
        (\<forall>k<n - 1. \<exists>e. LaunchFailed (Error ''ProcessSingleton'') = LaunchFailed e \<and>
             \<not> missingExecutable e \<and> profileInUse e) \<and>
        n = 3"
    by (simp add: newFactory_def)
  with run show ?thesis by blast
qed

section \<open>The profile directory: the naming scheme\<close>

text \<open>
  C9. The derived profile directory is \<open>path.join\<close> of the base directory and
  \<open>mcp-\<close>, the token, and the suffix. The token is the configured channel when there is
  one and the browser name otherwise. The suffix is there exactly when a root path is
  supplied (a string that is not empty), and it is then a dash and the hash of the root
  path. The path does not depend on the state in which the call is made: repeated calls
  with the same inputs return the same path.
\<close>

theorem createUserDataDir_scheme:
  "fst (createUserDataDir pf config rootPath None st) =
     Inr (pathJoin pf (case envProfilesDir pf of Some d \<Rightarrow> d | None \<Rightarrow> registryDirectory pf)
            (''mcp-'' @ browserToken config @ rootPathToken pf rootPath)) \<and>
   browserToken config =
     (case channel (browser config) of Some c \<Rightarrow> c | None \<Rightarrow> browserName (browser config)) \<and>
   (rootPathToken pf rootPath \<noteq> [] \<longleftrightarrow> truthy rootPath) \<and>
   (\<forall>r. rootPath = Some r \<and> r \<noteq> [] \<longrightarrow> rootPathToken pf rootPath = ''-'' @ createHash pf r) \<and>
   fst (createUserDataDir pf config rootPath None (snd (createUserDataDir pf config rootPath None st))) =
     fst (createUserDataDir pf config rootPath None st) \<and>
   fst (createUserDataDir pf config rootPath None st2) =
     fst (createUserDataDir pf config rootPath None st)"
  by (simp add: createUserDataDir_def browserToken_def rootPathToken_def truthy_def Let_def
        split: option.splits)

theorem createUserDataDir_scheme_witness:
  "fst (createUserDataDir
         \<lparr>envProfilesDir = None, registryDirectory = ''/cache'', createHash = (\<lambda>s. ''h'' @ s),
          pathJoin = (\<lambda>a b. a @ ''/'' @ b)\<rparr>
         \<lparr>browser = \<lparr>browserName = ''chromium'', isolated = False, userDataDirOpt = None,
                     channel = Some ''chrome'', cdpEndpoint = None, remoteEndpoint = None\<rparr>,
          saveTrace = False\<rparr>
         (Some ''/w'') None newFactory) = Inr ''/cache/mcp-chrome-h/w''"
  using createUserDataDir_scheme[of
         "\<lparr>envProfilesDir = None, registryDirectory = ''/cache'', createHash = (\<lambda>s. ''h'' @ s),
          pathJoin = (\<lambda>a b. a @ ''/'' @ b)\<rparr>"
         "\<lparr>browser = \<lparr>browserName = ''chromium'', isolated = False, userDataDirOpt = None,
                     channel = Some ''chrome'', cdpEndpoint = None, remoteEndpoint = None\<rparr>,
          saveTrace = False\<rparr>"
         "Some ''/w''" newFactory newFactory]
  by (simp add: browserToken_def)

section \<open>The registry: closing sessions\<close>

lemmas registry_defs = registryCreateContext_def obtainBrowser_def doObtainBrowser_def
  openBrowser_def doCreateContextOn_def newContext_def injectCdpPort_def startTraceServer_def
  Let_def



lemma close_defined:
  "contextOf s = Some c \<Longrightarrow>
     fst (closeBrowserContext s fails st) = Inr () \<and>
     contextsOf (snd (closeBrowserContext s fails st)) (browserOf s) =
       (if fails then contextsOf st (browserOf s) else removeAll c (contextsOf st (browserOf s))) \<and>
     closeLog (snd (closeBrowserContext s fails st)) =
       closeLog st @
         (if contextsOf (snd (closeBrowserContext s fails st)) (browserOf s) = []
          then [browserOf s] else [])"
  by (auto simp: closeBrowserContext_def Let_def browserClose_def disconnectedListener_def)





lemma cdp_sessions_share_only_context:
  assumes "\<not> isolated (browser config)" and "browserPromise st = Some b" and "contextsOf st b = [c]"
  shows "registryCreateContext CdpContextFactory config env st = (Inr (BSession (Some c) b), st) \<and>
         closeLog (snd (closeBrowserContext (BSession (Some c) b) False st)) = closeLog st @ [b]"
  using assms close_defined[of "BSession (Some c) b" c False st]
  by (simp add: registry_defs)




section \<open>The isolated strategy: one browser for the sessions\<close>

text \<open>
  C8, as the code has it. On the isolated strategy two calls of \<open>createContext\<close> that
  succeed one after the other are backed by the same browser, each with a context of its
  own, and the second call launches nothing. The first call launches a browser only when
  no browser is cached in \<open>_browserPromise\<close>.
\<close>

theorem isolated_shares_cached_browser:
  assumes "registryCreateContext IsolatedContextFactory config env1 st = (Inr s1, st1)"
      and "registryCreateContext IsolatedContextFactory config env2 st1 = (Inr s2, st2)"
  shows "browserOf s2 = browserOf s1 \<and> obtainCount st2 = obtainCount st1 \<and>
         contextOf s2 \<noteq> contextOf s1 \<and>
         (case browserPromise st of
            Some b \<Rightarrow> browserOf s1 = b \<and> obtainCount st1 = obtainCount st
          | None \<Rightarrow> browserOf s1 = obtainCount st \<and> obtainCount st1 = Suc (obtainCount st))"
  using assms
  by (auto simp: registry_defs
        split: option.splits launch_outcome.splits if_splits sum.splits prod.splits)

theorem isolated_shares_cached_browser_witness:
  "registryCreateContext IsolatedContextFactory isolatedConfig (succeeds 0) newRegistry =
     (Inr (BSession (Some 0) 0),
      newRegistry\<lparr>browserPromise := Some 0, contextsOf := (\<lambda>b. [])(0 := [0]),
         connected := (\<lambda>b. False)(0 := True), obtainCount := 1, contextCount := 1\<rparr>) \<and>
   registryCreateContext IsolatedContextFactory isolatedConfig (succeeds 0)
      (newRegistry\<lparr>browserPromise := Some 0, contextsOf := (\<lambda>b. [])(0 := [0]),
         connected := (\<lambda>b. False)(0 := True), obtainCount := 1, contextCount := 1\<rparr>) =
     (Inr (BSession (Some 1) 0),
      newRegistry\<lparr>browserPromise := Some 0, contextsOf := (\<lambda>b. [])(0 := [0, 1]),
         connected := (\<lambda>b. False)(0 := True), obtainCount := 1, contextCount := 2\<rparr>) \<and>
   browserOf (BSession (Some 1) 0) = browserOf (BSession (Some 0) 0) \<and>
   contextOf (BSession (Some 1) 0) \<noteq> contextOf (BSession (Some 0) 0)"
proof -
  have 1: "registryCreateContext IsolatedContextFactory isolatedConfig (succeeds 0) newRegistry =
     (Inr (BSession (Some 0) 0),
      newRegistry\<lparr>browserPromise := Some 0, contextsOf := (\<lambda>b. [])(0 := [0]),
         connected := (\<lambda>b. False)(0 := True), obtainCount := 1, contextCount := 1\<rparr>)"
    by (simp add: registry_defs newRegistry_def)
  have 2: "registryCreateContext IsolatedContextFactory isolatedConfig (succeeds 0)
      (newRegistry\<lparr>browserPromise := Some 0, contextsOf := (\<lambda>b. [])(0 := [0]),
         connected := (\<lambda>b. False)(0 := True), obtainCount := 1, contextCount := 1\<rparr>) =
     (Inr (BSession (Some 1) 0),
      newRegistry\<lparr>browserPromise := Some 0, contextsOf := (\<lambda>b. [])(0 := [0, 1]),
         connected := (\<lambda>b. False)(0 := True), obtainCount := 1, contextCount := 2\<rparr>)"
    by (simp add: registry_defs newRegistry_def)
  from isolated_shares_cached_browser[OF 1 2] 1 2 show ?thesis by blast
qed

theorem isolated_reuse_counterexample:
  "contextFactory isolatedConfig = IsolatedContextFactory \<and>
   fst (registryCreateContext IsolatedContextFactory isolatedConfig (succeeds 0) newRegistry) =
     Inr (BSession (Some 0) 0) \<and>
   fst (registryCreateContext IsolatedContextFactory isolatedConfig (succeeds 0)
         (snd (registryCreateContext IsolatedContextFactory isolatedConfig (succeeds 0) newRegistry))) =
     Inr (BSession (Some 1) 0) \<and>
   obtainCount (snd (registryCreateContext IsolatedContextFactory isolatedConfig (succeeds 0)
         (snd (registryCreateContext IsolatedContextFactory isolatedConfig (succeeds 0) newRegistry)))) = 1"
  by (simp add: registry_defs newRegistry_def contextFactory_def truthy_def)

section \<open>The CDP strategy: the first context of the browser\<close>



section \<open>The persistent strategy: hard close\<close>

lemma releases_append: "releases (xs @ ys) = releases xs @ releases ys"
  by (induction xs rule: releases.induct) simp_all









lemma launched_once:
  "createContext somePlatform persistentConfig None titleArrives launches newFactory =
     (Settles (Inr (Session (Some 0) HardClose)), launchedFactory)"
  by (simp add: createContext_def doCreateContext_def injectCdpPort_def startTraceServer_def
        launchLoop.simps everyLaunch_def logEvents_def newFactory_def)




section \<open>The persistent strategy: the liveness probe\<close>

lemma launchLoop_frame:
  "launchLoop dir outcome i st = (r, st') \<Longrightarrow>
     creationCount st' = creationCount st \<and> createContextPromise st' = createContextPromise st \<and>
     userDataDir st' = userDataDir st \<and> userDataDirs st' = userDataDirs st \<and>
     releases (trace st') = releases (trace st) \<and>
     (\<forall>s. r = Inr s \<longrightarrow> closeOf s = HardClose \<and> browserInstance st' = browserContextOf s)"
proof (induction dir outcome i st arbitrary: r st' rule: launchLoop.induct)
  case (1 dir outcome i st)
  let ?st1 = "logEvents [LaunchPersistentContext dir] (st\<lparr>launchCount := Suc (launchCount st)\<rparr>)"
  show ?case
  proof (cases "i < 3 \<and> (\<exists>e. outcome i = LaunchFailed e \<and> \<not> missingExecutable e \<and> profileInUse e \<and> i < 2)")
    case False
    with "1.prems" show ?thesis
      by (subst (asm) launchLoop.simps)
         (auto simp: Let_def logEvents_def releases_append split: if_splits launch_outcome.splits)
  next
    case True
    then obtain e where e: "i < 3" "outcome i = LaunchFailed e" "\<not> missingExecutable e"
      "profileInUse e" "i < 2" by blast
    let ?st2 = "logEvents [SetTimeout (2000 * (i + 1))] ?st1"
    from e "1.prems" have run: "launchLoop dir outcome (i + 1) ?st2 = (r, st')"
      by (subst (asm) launchLoop.simps) (simp add: Let_def)
    from "1.IH"[OF e(1) refl refl e(2) e(3) e(4) e(5) run] show ?thesis
      by (simp add: logEvents_def releases_append)
  qed
qed

lemma doCreateContext_launches:
  assumes "setupSucceeds config cenv" and "doCreateContext pf config rootPath cenv st = (r, st')"
  shows "launchCount st < launchCount st' \<and> launchCount st' \<le> launchCount st + 3 \<and>
         creationCount st' = creationCount st \<and> createContextPromise st' = createContextPromise st \<and>
         (\<forall>s. r = Inr s \<longrightarrow> closeOf s = HardClose \<and> browserInstance st' = browserContextOf s) \<and>
         (launch cenv 0 = Launched \<longrightarrow>
            r = Inr (Session (Some (launchCount st)) HardClose) \<and>
            browserInstance st' = Some (launchCount st) \<and> launchCount st' = Suc (launchCount st))"
proof -
  from assms obtain dir st0 where
    run: "launchLoop dir (launch cenv) 0 st0 = (r, st')" and
    st0: "launchCount st0 = launchCount st" "creationCount st0 = creationCount st"
         "createContextPromise st0 = createContextPromise st"
    by (auto simp: doCreateContext_def setupSucceeds_def createUserDataDir_def logEvents_def Let_def
          split: option.splits)
  from launchLoop_from[OF run zero_less_numeral] obtain n where
    n: "launchCount st' = launchCount st0 + n" "1 \<le> n" "0 + n \<le> 3" by blast
  have first: "launch cenv 0 = Launched \<longrightarrow>
            r = Inr (Session (Some (launchCount st0)) HardClose) \<and>
            browserInstance st' = Some (launchCount st0) \<and> launchCount st' = Suc (launchCount st0)"
    using run by (subst (asm) launchLoop.simps) (auto simp: Let_def logEvents_def)
  from launchLoop_frame[OF run] n first st0 show ?thesis by simp
qed

lemma createContext_fresh_launch:
  assumes "createContextPromise st = None" and "browserInstance st = None"
      and "setupSucceeds config cenv"
  shows "launchCount st < launchCount (snd (createContext pf config rp penv cenv st)) \<and>
         createContextPromise (snd (createContext pf config rp penv cenv st)) = None \<and>
         (\<forall>s. fst (createContext pf config rp penv cenv st) = Settles (Inr s) \<longrightarrow> closeOf s = HardClose) \<and>
         (launch cenv 0 = Launched \<longrightarrow>
            fst (createContext pf config rp penv cenv st) =
              Settles (Inr (Session (Some (launchCount st)) HardClose)))"
proof -
  let ?st2 = "st\<lparr>createContextPromise := Some (creationCount st), creationCount := Suc (creationCount st)\<rparr>"
  obtain r st3 where d: "doCreateContext pf config rp cenv ?st2 = (r, st3)"
    by (cases "doCreateContext pf config rp cenv ?st2")
  from assms(1,2) d have cc: "createContext pf config rp penv cenv st = (Settles r, st3\<lparr>createContextPromise := None\<rparr>)"
    by (simp add: createContext_def)
  from doCreateContext_launches[OF assms(3) d] show ?thesis
    unfolding cc by auto
qed


text \<open>
  C7. A context with no page is judged live, with no title read and no timer. Otherwise
  the title of the first page is read against a timer of 1000 ms, and the context is live
  exactly when the title arrives first; a rejected title and the timer both give "not
  live". A call of \<open>createContext\<close> whose probe fails goes on to create a new handle:
  what it returns is what \<open>_doCreateContext\<close> returns, so the failure of the probe is
  not what the caller sees; and when nothing rejects before the loop, a launch is made.
\<close>

theorem probe_failure_falls_back:
  "(pageCount penv = 0 \<longrightarrow> isBrowserContextValid penv st = (True, st)) \<and>
   (pageCount penv \<noteq> 0 \<longrightarrow>
      isBrowserContextValid penv st =
        (race penv = TitleResolved, logEvents [PageTitle, SetTimeout 1000] st)) \<and>
   (createContextPromise st = None \<and> browserInstance st = Some h \<and> \<not> probeSucceeds penv \<longrightarrow>
      fst (createContext pf config rp penv cenv st) =
        Settles (fst (doCreateContext pf config rp cenv
           ((logEvents [PageTitle, SetTimeout 1000] st)
              \<lparr>createContextPromise := Some (creationCount st),
               creationCount := Suc (creationCount st)\<rparr>))) \<and>
      snd (createContext pf config rp penv cenv st) =
        (snd (doCreateContext pf config rp cenv
           ((logEvents [PageTitle, SetTimeout 1000] st)
              \<lparr>createContextPromise := Some (creationCount st),
               creationCount := Suc (creationCount st)\<rparr>)))\<lparr>createContextPromise := None\<rparr> \<and>
      (setupSucceeds config cenv \<longrightarrow>
         launchCount st < launchCount (snd (createContext pf config rp penv cenv st))))"
proof -
  have a: "pageCount penv = 0 \<longrightarrow> isBrowserContextValid penv st = (True, st)"
    by (simp add: isBrowserContextValid_def)
  have b: "pageCount penv \<noteq> 0 \<longrightarrow>
      isBrowserContextValid penv st =
        (race penv = TitleResolved, logEvents [PageTitle, SetTimeout 1000] st)"
    by (simp add: isBrowserContextValid_def Let_def split: race_outcome.splits)
  let ?st2 = "(logEvents [PageTitle, SetTimeout 1000] st)
              \<lparr>createContextPromise := Some (creationCount st),
               creationCount := Suc (creationCount st)\<rparr>"
  have c: "createContextPromise st = None \<and> browserInstance st = Some h \<and> \<not> probeSucceeds penv \<longrightarrow>
      createContext pf config rp penv cenv st =
        (Settles (fst (doCreateContext pf config rp cenv ?st2)),
         (snd (doCreateContext pf config rp cenv ?st2))\<lparr>createContextPromise := None\<rparr>)"
    by (auto simp: createContext_def isBrowserContextValid_def probeSucceeds_def logEvents_def Let_def
          split: race_outcome.splits prod.splits)
  have d: "setupSucceeds config cenv \<longrightarrow>
      launchCount st < launchCount (snd (doCreateContext pf config rp cenv ?st2))"
    using doCreateContext_launches[of config cenv pf rp ?st2]
    by (cases "doCreateContext pf config rp cenv ?st2") (auto simp: logEvents_def)
  show ?thesis using a b c d by auto
qed

theorem probe_failure_falls_back_witness:
  "\<not> probeSucceeds titleTimesOut \<and>
   isBrowserContextValid titleTimesOut newFactory =
     (False, logEvents [PageTitle, SetTimeout 1000] newFactory) \<and>
   fst (createContext somePlatform persistentConfig None titleTimesOut launches
          (snd (createContext somePlatform persistentConfig None titleArrives launches newFactory))) =
     Settles (Inr (Session (Some 1) HardClose))"
proof -
  have "\<not> probeSucceeds titleTimesOut" by (simp add: probeSucceeds_def)
  with probe_failure_falls_back[of titleTimesOut newFactory]
    probe_failure_falls_back[of titleTimesOut
      "snd (createContext somePlatform persistentConfig None titleArrives launches newFactory)"
      0 somePlatform persistentConfig None launches]
  show ?thesis
    unfolding launched_once
    by (simp add: doCreateContext_def injectCdpPort_def startTraceServer_def
        launchLoop.simps everyLaunch_def logEvents_def newFactory_def)
qed

section \<open>The persistent strategy: soft and hard close\<close>










section \<open>The persistent strategy: calls that overlap\<close>

lemmas system_defs = invoke_def resumeCall_def resumeCreation_def creationStep_def
  startCreation_def callLaunch_def isBrowserContextValid_def injectCdpPort_def
  startTraceServer_def logEvents_def everyLaunch_def Let_def

text \<open>
  Resumed alone, a creation does what \<open>doCreateContext\<close> does: the steps and the loop
  are the same code.
\<close>

lemma settled_stays:
  "creationPc c = CreationSettled r \<Longrightarrow> creationSteps n pf config c st = (CreationSettled r, st)"
  by (induction n arbitrary: c) (simp_all add: creationStep_def)

lemma creationSteps_Suc:
  "creationSteps (Suc n) pf config c st =
     creationSteps n pf config (c\<lparr>creationPc := fst (creationStep pf config c st)\<rparr>)
       (snd (creationStep pf config c st))"
  by (simp add: Let_def split: prod.splits)

lemma loop_steps:
  "i < 3 \<Longrightarrow> 2 * (2 - i) < n \<Longrightarrow>
   creationSteps n pf config
      \<lparr>creationRoot = rp, creationEnv = cenv, creationPc = AwaitsLaunch dir i (launchCount st)\<rparr>
      (logEvents [LaunchPersistentContext dir] (st\<lparr>launchCount := Suc (launchCount st)\<rparr>)) =
   (case launchLoop dir (launch cenv) i st of (r, st') \<Rightarrow> (CreationSettled r, st'))"
proof (induction dir "launch cenv" i st arbitrary: n rule: launchLoop.induct)
  case (1 dir i st)
  let ?st1 = "logEvents [LaunchPersistentContext dir] (st\<lparr>launchCount := Suc (launchCount st)\<rparr>)"
  let ?c = "\<lparr>creationRoot = rp, creationEnv = cenv, creationPc = AwaitsLaunch dir i (launchCount st)\<rparr>"
  from "1.prems" obtain m where n: "n = Suc m" by (cases n) auto
  show ?case
  proof (cases "\<exists>e. launch cenv i = LaunchFailed e \<and> \<not> missingExecutable e \<and> profileInUse e \<and> i < 2")
    case False
    with "1.prems" show ?thesis
      unfolding n creationSteps_Suc
      by (subst launchLoop.simps)
         (auto simp: creationStep_def Let_def settled_stays split: launch_outcome.splits)
  next
    case True
    then obtain e where e: "launch cenv i = LaunchFailed e" "\<not> missingExecutable e"
      "profileInUse e" "i < 2" by blast
    let ?st2 = "logEvents [SetTimeout (2000 * (i + 1))] ?st1"
    from "1.prems" e obtain k where m: "m = Suc k" "2 * (2 - (i + 1)) < k"
      unfolding n by (cases m) auto
    have s1: "creationStep pf config ?c ?st1 = (AwaitsTimer dir i, ?st2)"
      using e by (simp add: creationStep_def)
    have s2: "creationStep pf config (?c\<lparr>creationPc := AwaitsTimer dir i\<rparr>) ?st2 =
        (AwaitsLaunch dir (i + 1) (launchCount ?st2),
         logEvents [LaunchPersistentContext dir] (?st2\<lparr>launchCount := Suc (launchCount ?st2)\<rparr>))"
      using e by (simp add: creationStep_def callLaunch_def)
    have lhs: "creationSteps n pf config ?c ?st1 =
        creationSteps k pf config
          \<lparr>creationRoot = rp, creationEnv = cenv, creationPc = AwaitsLaunch dir (i + 1) (launchCount ?st2)\<rparr>
          (logEvents [LaunchPersistentContext dir] (?st2\<lparr>launchCount := Suc (launchCount ?st2)\<rparr>))"
      unfolding n m creationSteps_Suc s1 fst_conv snd_conv
      by (simp only: s2 fst_conv snd_conv) simp
    have rhs: "launchLoop dir (launch cenv) i st = launchLoop dir (launch cenv) (i + 1) ?st2"
      using e "1.prems" by (subst launchLoop.simps) (simp add: Let_def)
    from e "1.prems" have "i + 1 < 3" by simp
    from "1.hyps"[OF "1.prems"(1) refl refl e(1) e(2) e(3) e(4) this m(2)] lhs rhs
    show ?thesis by simp
  qed
qed

lemma creation_steps_agree:
  "creationSteps 6 pf config \<lparr>creationRoot = rp, creationEnv = cenv, creationPc = InSetup\<rparr> st =
     (case doCreateContext pf config rp cenv st of (r, st') \<Rightarrow> (CreationSettled r, st'))"
proof -
  let ?c = "\<lparr>creationRoot = rp, creationEnv = cenv, creationPc = InSetup\<rparr>"
  have six: "(6::nat) = Suc 5" by simp
  consider
    (fail) e st1 where "creationStep pf config ?c st = (CreationSettled (Inl e), st1)"
      "doCreateContext pf config rp cenv st = (Inl e, st1)"
  | (ok) dir stL where "creationStep pf config ?c st = callLaunch dir 0 stL"
      "doCreateContext pf config rp cenv st = launchLoop dir (launch cenv) 0 stL"
    by (cases "injectCdpPort config (portFailure cenv)";
        cases "userDataDirOpt (browser config)";
        cases "mkdirFailure cenv";
        cases "startTraceServer config (traceFailure cenv)")
       (simp_all add: creationStep_def doCreateContext_def createUserDataDir_def Let_def)
  then show ?thesis
  proof cases
    case fail
    then show ?thesis
      unfolding six creationSteps_Suc by (simp add: settled_stays)
  next
    case ok
    have "creationSteps 5 pf config
        \<lparr>creationRoot = rp, creationEnv = cenv, creationPc = AwaitsLaunch dir 0 (launchCount stL)\<rparr>
        (logEvents [LaunchPersistentContext dir] (stL\<lparr>launchCount := Suc (launchCount stL)\<rparr>)) =
      (case launchLoop dir (launch cenv) 0 stL of (r, st') \<Rightarrow> (CreationSettled r, st'))"
      by (rule loop_steps) simp_all
    with ok show ?thesis
      unfolding six creationSteps_Suc by (simp add: callLaunch_def)
  qed
qed

text \<open>
  So does a call: invoked on a system with no creation pending and run alone (the call
  resumed after its probe, its creation resumed until it has settled, the call resumed
  again), it returns what \<open>createContext\<close> returns and leaves the factory as
  \<open>createContext\<close> leaves it.
\<close>

lemma run_append: "run pf config (as @ bs) sys = run pf config bs (run pf config as sys)"
  by (induction as arbitrary: sys) simp_all

lemma resumeCreation_many:
  "k < length (creations sys) \<Longrightarrow>
   run pf config (replicate n (ResumeCreation k)) sys =
     sys\<lparr>factory := snd (creationSteps n pf config (creations sys ! k) (factory sys)),
         creations := (creations sys)
           [k := (creations sys ! k)\<lparr>creationPc :=
                    fst (creationSteps n pf config (creations sys ! k) (factory sys))\<rparr>]\<rparr>"
proof (induction n arbitrary: sys)
  case 0
  then show ?case by simp
next
  case (Suc n)
  let ?c = "creations sys ! k"
  let ?s1 = "resumeCreation pf config k sys"
  have s1: "?s1 = sys\<lparr>factory := snd (creationStep pf config ?c (factory sys)),
      creations := (creations sys)[k := ?c\<lparr>creationPc := fst (creationStep pf config ?c (factory sys))\<rparr>]\<rparr>"
    using Suc.prems by (simp add: resumeCreation_def Let_def split: prod.splits)
  have len: "k < length (creations ?s1)" using Suc.prems by (simp add: s1)
  show ?case
    using Suc.IH[OF len] Suc.prems
    by (simp add: s1 creationSteps_Suc del: creationSteps.simps)
qed

lemma resumeCreation_out_of_range:
  "\<not> k < length (creations sys) \<Longrightarrow> run pf config (replicate n (ResumeCreation k)) sys = sys"
  by (induction n) (simp_all add: resumeCreation_def)

lemma finish_own_creation:
  assumes "k = length cs" and "i = length xs"
  shows "run pf config (ResumeCall i # replicate 6 (ResumeCreation k) @ [ResumeCall i])
           \<lparr>factory = st2,
            calls = xs @ [\<lparr>callRoot = rp', callCreation = cenv', callPc = AwaitsCreation k True\<rparr>],
            creations = cs @ [\<lparr>creationRoot = rp, creationEnv = cenv, creationPc = InSetup\<rparr>]\<rparr> =
         \<lparr>factory = (snd (doCreateContext pf config rp cenv st2))\<lparr>createContextPromise := None\<rparr>,
          calls = xs @ [\<lparr>callRoot = rp', callCreation = cenv',
                         callPc = CallReturned (fst (doCreateContext pf config rp cenv st2))\<rparr>],
          creations = cs @ [\<lparr>creationRoot = rp, creationEnv = cenv,
                         creationPc = CreationSettled (fst (doCreateContext pf config rp cenv st2))\<rparr>]\<rparr>"
proof -
  let ?c0 = "\<lparr>creationRoot = rp, creationEnv = cenv, creationPc = InSetup\<rparr>"
  let ?call = "\<lparr>callRoot = rp', callCreation = cenv', callPc = AwaitsCreation k True\<rparr>"
  let ?s0 = "\<lparr>factory = st2, calls = xs @ [?call], creations = cs @ [?c0]\<rparr>"
  have 1: "resumeCall i ?s0 = ?s0"
    using assms by (simp add: resumeCall_def)
  have 2: "run pf config (replicate 6 (ResumeCreation k)) ?s0 =
      \<lparr>factory = snd (doCreateContext pf config rp cenv st2), calls = xs @ [?call],
       creations = cs @ [\<lparr>creationRoot = rp, creationEnv = cenv,
          creationPc = CreationSettled (fst (doCreateContext pf config rp cenv st2))\<rparr>]\<rparr>"
    using assms
    by (subst resumeCreation_many) (simp_all add: creation_steps_agree split: prod.splits)
  show ?thesis
    unfolding run.simps perform.simps 1 run_append 2
    using assms by (simp add: resumeCall_def)
qed

lemma solo_call_agrees:
  assumes "createContextPromise (factory sys) = None"
      and "length (creations sys) = creationCount (factory sys)"
  shows "\<exists>r. fst (createContext pf config rp penv cenv (factory sys)) = Settles r \<and>
          factory (run pf config
             ([Invoke rp penv cenv, ResumeCall (length (calls sys))] @
              replicate 6 (ResumeCreation (creationCount (factory sys))) @
              [ResumeCall (length (calls sys))]) sys) =
            snd (createContext pf config rp penv cenv (factory sys)) \<and>
          map callPc (calls (run pf config
             ([Invoke rp penv cenv, ResumeCall (length (calls sys))] @
              replicate 6 (ResumeCreation (creationCount (factory sys))) @
              [ResumeCall (length (calls sys))]) sys)) =
            map callPc (calls sys) @ [CallReturned r]"
proof -
  obtain st xs cs where sys: "sys = \<lparr>factory = st, calls = xs, creations = cs\<rparr>"
    by (cases sys) auto
  from assms have st: "createContextPromise st = None" "creationCount st = length cs"
    by (simp_all add: sys)
  show ?thesis
  proof (cases "browserInstance st")
    case None
    let ?st2 = "st\<lparr>createContextPromise := Some (length cs), creationCount := Suc (length cs)\<rparr>"
    have inv: "invoke rp penv cenv sys =
        \<lparr>factory = ?st2,
         calls = xs @ [\<lparr>callRoot = rp, callCreation = cenv, callPc = AwaitsCreation (length cs) True\<rparr>],
         creations = cs @ [\<lparr>creationRoot = rp, creationEnv = cenv, creationPc = InSetup\<rparr>]\<rparr>"
      using None st by (simp add: invoke_def startCreation_def Let_def sys)
    have cc: "createContext pf config rp penv cenv st =
        (Settles (fst (doCreateContext pf config rp cenv ?st2)),
         (snd (doCreateContext pf config rp cenv ?st2))\<lparr>createContextPromise := None\<rparr>)"
      using None st by (simp add: createContext_def split: prod.splits)
    show ?thesis
      using st
      by (simp add: sys inv[unfolded sys] cc finish_own_creation[OF refl refl] del: replicate.simps run.simps(2)
            add: run.simps(2)[of _ _ "Invoke rp penv cenv"])
  next
    case (Some h)
    obtain valid st1 where p: "isBrowserContextValid penv st = (valid, st1)"
      by (cases "isBrowserContextValid penv st")
    then have st1: "creationCount st1 = length cs" "createContextPromise st1 = None"
      using st by (auto simp: isBrowserContextValid_def logEvents_def Let_def split: if_splits race_outcome.splits)
    have inv: "invoke rp penv cenv sys =
        \<lparr>factory = st1,
         calls = xs @ [\<lparr>callRoot = rp, callCreation = cenv, callPc = Probing valid\<rparr>],
         creations = cs\<rparr>"
      using Some st p by (simp add: invoke_def sys)
    show ?thesis
    proof (cases valid)
      case True
      have cc: "createContext pf config rp penv cenv st =
          (Settles (Inr (Session (browserInstance st1) SoftClose)), st1)"
        using Some st p True by (simp add: createContext_def)
      have r1: "resumeCall (length xs)
          \<lparr>factory = st1,
           calls = xs @ [\<lparr>callRoot = rp, callCreation = cenv, callPc = Probing valid\<rparr>],
           creations = cs\<rparr> =
          \<lparr>factory = st1,
           calls = xs @ [\<lparr>callRoot = rp, callCreation = cenv,
              callPc = CallReturned (Inr (Session (browserInstance st1) SoftClose))\<rparr>],
           creations = cs\<rparr>"
        using True by (simp add: resumeCall_def)
      let ?sB = "\<lparr>factory = st1,
           calls = xs @ [\<lparr>callRoot = rp, callCreation = cenv,
              callPc = CallReturned (Inr (Session (browserInstance st1) SoftClose))\<rparr>],
           creations = cs\<rparr>"
      have r2: "run pf config (replicate 6 (ResumeCreation (length cs))) ?sB = ?sB"
        by (rule resumeCreation_out_of_range) simp
      have r3: "resumeCall (length xs) ?sB = ?sB"
        by (simp add: resumeCall_def)
      show ?thesis
        using st
        by (simp add: sys inv[unfolded sys] cc r1 run_append r2 r3 del: replicate.simps)
    next
      case False
      let ?st2 = "st1\<lparr>createContextPromise := Some (length cs), creationCount := Suc (length cs)\<rparr>"
      have cc: "createContext pf config rp penv cenv st =
          (Settles (fst (doCreateContext pf config rp cenv ?st2)),
           (snd (doCreateContext pf config rp cenv ?st2))\<lparr>createContextPromise := None\<rparr>)"
        using Some st p False st1 by (simp add: createContext_def split: prod.splits)
      have r1: "resumeCall (length xs)
          \<lparr>factory = st1,
           calls = xs @ [\<lparr>callRoot = rp, callCreation = cenv, callPc = Probing valid\<rparr>],
           creations = cs\<rparr> =
          \<lparr>factory = ?st2,
           calls = xs @ [\<lparr>callRoot = rp, callCreation = cenv, callPc = AwaitsCreation (length cs) True\<rparr>],
           creations = cs @ [\<lparr>creationRoot = rp, creationEnv = cenv, creationPc = InSetup\<rparr>]\<rparr>"
        using False st st1 by (simp add: resumeCall_def startCreation_def Let_def)
      have fin: "run pf config (replicate 6 (ResumeCreation (length cs)) @ [ResumeCall (length xs)])
           \<lparr>factory = ?st2,
            calls = xs @ [\<lparr>callRoot = rp, callCreation = cenv, callPc = AwaitsCreation (length cs) True\<rparr>],
            creations = cs @ [\<lparr>creationRoot = rp, creationEnv = cenv, creationPc = InSetup\<rparr>]\<rparr> =
         \<lparr>factory = (snd (doCreateContext pf config rp cenv ?st2))\<lparr>createContextPromise := None\<rparr>,
          calls = xs @ [\<lparr>callRoot = rp, callCreation = cenv,
                         callPc = CallReturned (fst (doCreateContext pf config rp cenv ?st2))\<rparr>],
          creations = cs @ [\<lparr>creationRoot = rp, creationEnv = cenv,
                         creationPc = CreationSettled (fst (doCreateContext pf config rp cenv ?st2))\<rparr>]\<rparr>"
        using finish_own_creation[where k = "length cs" and cs = cs and i = "length xs"
            and xs = xs and pf = pf and config = config and ?st2.0 = ?st2 and rp' = rp
            and cenv' = cenv and rp = rp and cenv = cenv, OF refl refl]
        by (simp add: resumeCall_def del: replicate.simps)
      show ?thesis
        using st
        by (simp add: sys inv[unfolded sys] cc r1 fin del: replicate.simps)
    qed
  qed
qed

text \<open>
  A call that finds a creation pending awaits that creation and starts nothing; and a call
  that finds neither a pending creation nor a handle fills the slot before it is
  suspended, so that a second call arriving right after it awaits the same creation.
\<close>

lemma invoke_joins_pending:
  "createContextPromise (factory sys) = Some p \<Longrightarrow>
     invoke rp penv cenv sys =
       sys\<lparr>calls := calls sys @
              [\<lparr>callRoot = rp, callCreation = cenv, callPc = AwaitsCreation p False\<rparr>]\<rparr>"
  by (simp add: invoke_def)

lemma invoke_without_handle_coalesces:
  assumes "createContextPromise (factory sys) = None" and "browserInstance (factory sys) = None"
  shows "creations (invoke rp2 penv2 cenv2 (invoke rp penv cenv sys)) =
           creations sys @ [\<lparr>creationRoot = rp, creationEnv = cenv, creationPc = InSetup\<rparr>] \<and>
         map callPc (calls (invoke rp2 penv2 cenv2 (invoke rp penv cenv sys))) =
           map callPc (calls sys) @
             [AwaitsCreation (creationCount (factory sys)) True,
              AwaitsCreation (creationCount (factory sys)) False]"
  using assms by (simp add: invoke_def startCreation_def Let_def)

text \<open>
  C1, where the code departs from it. The factory holds a handle (one launch so far). Two
  calls of \<open>createContext\<close> arrive before either returns; the probe of each fails. Each
  call, resumed after its probe, starts a creation without looking at
  \<open>_createContextPromise\<close> again: two creations are pending at once, each has called
  \<open>launchPersistentContext\<close>, and neither call has returned.
\<close>

theorem overlapping_calls_launch_twice:
  "factory (run somePlatform persistentConfig firstCall newSystem) = launchedFactory \<and>
   map callPc (calls (run somePlatform persistentConfig (firstCall @ twoCallsOverlap) newSystem)) =
     [CallReturned (Inr (Session (Some 0) HardClose)), AwaitsCreation 1 True, AwaitsCreation 2 True] \<and>
   map creationPc (creations (run somePlatform persistentConfig (firstCall @ twoCallsOverlap) newSystem)) =
     [CreationSettled (Inr (Session (Some 0) HardClose)),
      AwaitsLaunch ''/profile'' 0 1, AwaitsLaunch ''/profile'' 0 2] \<and>
   launchCount (factory (run somePlatform persistentConfig (firstCall @ twoCallsOverlap) newSystem)) =
     launchCount launchedFactory + 2"
  by (simp add: system_defs newSystem_def newFactory_def)


end
